theory Spec2Isabelle
  imports Main "HOL-Library.Word"
begin

section \<open>Values shared by the API classes\<close>

text \<open>
  A \<^verbatim>\<open>Buffer\<close> is a sequence of bytes. \<^verbatim>\<open>BN\<close> values are arbitrary-precision
  integers and are modelled as \<open>int\<close>.
\<close>

type_synonym buffer = "8 word list"

text \<open>
  The source throws plain \<^verbatim>\<open>Error\<close> objects that differ in their message only. The
  constructors below name the kinds of section 7 of the specification; each carries the
  message of the \<^verbatim>\<open>throw\<close> it stands for. \<open>TypeError\<close> is the error of the run time
  when a method is called on \<^verbatim>\<open>undefined\<close>. \<open>CollaboratorError\<close> is an exception raised
  inside a collaborator that is not part of these sources (the codec, the transport, the
  transaction assembly) and passed through unchanged.
\<close>

datatype error =
    MissingChainID string
  | InvalidChainIDType string
  | InvalidChainIDLength string
  | MixedDestinationChainError string
  | AddressFormatError string
  | FeeSanityError string
  | UnknownCredentialType int
  | TypeError string
  | CollaboratorError string

section \<open>constants.ts\<close>

definition SECPCREDENTIAL :: int where
  "SECPCREDENTIAL = 9"

definition ADDRESSLENGTH :: nat where
  "ADDRESSLENGTH = 20"

section \<open>credentials.ts\<close>

text \<open>
  \<^verbatim>\<open>SECPCredential\<close> extends the \<^verbatim>\<open>Credential\<close> base class, whose constructor takes
  the constructor arguments handed on by \<^verbatim>\<open>SelectCredentialClass\<close>. The base class
  is not part of these sources, so the arguments are kept as they were passed.
\<close>

record 'a credential =
  typeName :: string
  typeID :: int
  ctor_args :: 'a

definition new_SECPCredential :: "'a \<Rightarrow> 'a credential" where
  "new_SECPCredential args =
     \<lparr>typeName = ''SECPCredential'', typeID = SECPCREDENTIAL, ctor_args = args\<rparr>"

definition getCredentialID :: "'a credential \<Rightarrow> int" where
  "getCredentialID c = typeID c"

text \<open>
  \<^verbatim>\<open>SelectCredentialClass(credid, ...args)\<close>: one \<^verbatim>\<open>if\<close> per registered tag, then
  the \<^verbatim>\<open>throw\<close>. The thrown message ends in the tag, which the error value carries.
\<close>

definition SelectCredentialClass :: "int \<Rightarrow> 'a \<Rightarrow> error + 'a credential" where
  "SelectCredentialClass credid args =
     (if credid = SECPCREDENTIAL then Inr (new_SECPCredential args)
      else Inl (UnknownCredentialType credid))"

text \<open>The tags the dispatch of \<^verbatim>\<open>SelectCredentialClass\<close> enumerates.\<close>

definition registered_credential_tags :: "int list" where
  "registered_credential_tags = [SECPCREDENTIAL]"

section \<open>Collaborators that are not part of these sources\<close>

text \<open>
  The two API classes (\<^verbatim>\<open>EVMAPI\<close> in api.ts and \<^verbatim>\<open>ContractVMAPI\<close> in the second
  source file) share their code line by line and differ in the places listed here: the
  class name in error messages, the prefix of the remote method names, the chain whose
  defaults they read, the default chain of \<^verbatim>\<open>refreshBlockchainID\<close> and the body of
  \<^verbatim>\<open>getAVAXAssetID\<close>. One model with the class as a parameter covers both.
\<close>

datatype api_class = EVMAPI | ContractVMAPI

fun class_name :: "api_class \<Rightarrow> string" where
  "class_name EVMAPI = ''EVMAPI''"
| "class_name ContractVMAPI = ''ContractVMAPI''"

fun rpc_prefix :: "api_class \<Rightarrow> string" where
  "rpc_prefix EVMAPI = ''avax''"
| "rpc_prefix ContractVMAPI = ''platform''"

text \<open>
  Modelled from the spec: \<^verbatim>\<open>ONEAVAX\<close> is imported from utils/constants, which is not
  among the sources; the specification gives one unit of the native asset as \<open>10^9\<close>.
\<close>

definition ONEAVAX :: int where
  "ONEAVAX = 1000000000"

text \<open>
  Modelled from the spec: the table \<^verbatim>\<open>Defaults.network\<close> of utils/constants is not
  among the sources. An entry of a network holds the chains \<^verbatim>\<open>C\<close> and \<^verbatim>\<open>P\<close> that
  the classes read by name, and the chains found by blockchain ID; a chain entry holds
  the fields the classes read.
\<close>

record chain_defaults =
  cd_blockchainID :: string
  cd_alias :: "string option"
  cd_txFee :: int
  cd_creationTxFee :: int

record network_defaults =
  chain_C :: chain_defaults
  chain_P :: chain_defaults
  chains :: "string \<rightharpoonup> chain_defaults"

text \<open>
  Modelled from the spec: a spendable output has the identity key (source transaction
  ID, output index) and a payload. The serialised strings that the node and the local
  store exchange are modelled by the outputs they decode to.
\<close>

record utxo =
  utxo_txid :: string
  utxo_outputidx :: nat
  utxo_assetID :: buffer
  utxo_amount :: int
  utxo_owners :: "string list"
  utxo_threshold :: nat
  utxo_locktime :: int

text \<open>
  Modelled from the spec: the unsigned transaction of tx.ts, which is not among the
  sources: ordered inputs and outputs, each an asset ID with an amount, the type tag, the
  counterpart chain and the memo.
\<close>

datatype tx_kind = ImportTx | ExportTx

record unsigned_tx =
  tx_kind :: tx_kind
  tx_ins :: "(buffer \<times> int) list"
  tx_outs :: "(buffer \<times> int) list"
  tx_chain :: buffer
  tx_memo :: "buffer option"

text \<open>
  Modelled from the spec: the total of an asset over the inputs or the outputs, and the
  burn, their difference. The methods of tx.ts take the asset ID as a \<^verbatim>\<open>Buffer\<close> and
  read its bytes (\<^verbatim>\<open>assetID.toString('hex')\<close>); called with \<^verbatim>\<open>undefined\<close>, as
  \<^verbatim>\<open>checkGooseEgg\<close> calls them when no asset ID is cached, they throw a TypeError.
\<close>

definition asset_total :: "(buffer \<times> int) list \<Rightarrow> buffer \<Rightarrow> int" where
  "asset_total xs a = sum_list (map snd (filter (\<lambda>x. fst x = a) xs))"

definition getInputTotal :: "unsigned_tx \<Rightarrow> buffer option \<Rightarrow> error + int" where
  "getInputTotal utx assetID =
     (case assetID of
        None \<Rightarrow> Inl (TypeError ''Cannot read properties of undefined (reading toString)'')
      | Some a \<Rightarrow> Inr (asset_total (tx_ins utx) a))"

definition getOutputTotal :: "unsigned_tx \<Rightarrow> buffer option \<Rightarrow> error + int" where
  "getOutputTotal utx assetID =
     (case assetID of
        None \<Rightarrow> Inl (TypeError ''Cannot read properties of undefined (reading toString)'')
      | Some a \<Rightarrow> Inr (asset_total (tx_outs utx) a))"

definition getBurn :: "unsigned_tx \<Rightarrow> buffer option \<Rightarrow> error + int" where
  "getBurn utx assetID =
     (case getInputTotal utx assetID of
        Inl err \<Rightarrow> Inl err
      | Inr total_in \<Rightarrow>
          (case getOutputTotal utx assetID of
             Inl err \<Rightarrow> Inl err
           | Inr total_out \<Rightarrow> Inr (total_in - total_out)))"

text \<open>
  A JavaScript argument whose declared type is \<^verbatim>\<open>Buffer | string\<close> with default
  \<^verbatim>\<open>undefined\<close>, as the run-time checks of the source see it: \<open>JOther\<close> is any other
  value and carries the result of \<^verbatim>\<open>typeof\<close>.
\<close>

datatype js_arg = JUndefined | JString string | JBuffer buffer | JOther string

datatype addr_entry = AddrStr string | AddrBuf buffer

datatype memo_arg = MemoUndefined | MemoPayload buffer | MemoBuffer buffer

datatype one_or_many = One string | Many "string list"

text \<open>The remote calls: the parameter object sent and the result object received.\<close>

datatype rpc_params =
    NoParams
  | GetUTXOsParams "string list" int "(string \<times> string) option" "string option"

datatype rpc_result =
    AssetIDResult string
  | UTXOsResult nat "utxo list" "string \<times> string"

type_synonym rpc_call = "string \<times> rpc_params"

text \<open>The arguments of \<^verbatim>\<open>UTXOSet.buildImportTx\<close> and \<^verbatim>\<open>UTXOSet.buildExportTx\<close>, in order.\<close>

record import_args =
  ia_networkid :: nat
  ia_blockchainid :: buffer
  ia_to :: "buffer list"
  ia_from :: "buffer list"
  ia_change :: "buffer list"
  ia_atomics :: "utxo list"
  ia_sourceChain :: buffer
  ia_fee :: int
  ia_feeAssetID :: "buffer option"
  ia_memo :: "buffer option"
  ia_asOf :: int
  ia_locktime :: int
  ia_threshold :: nat

record export_args =
  ea_networkid :: nat
  ea_blockchainid :: buffer
  ea_amount :: int
  ea_assetID :: "buffer option"
  ea_to :: "buffer list"
  ea_from :: "buffer list"
  ea_change :: "buffer list"
  ea_destinationChain :: buffer
  ea_fee :: int
  ea_feeAssetID :: "buffer option"
  ea_memo :: "buffer option"
  ea_asOf :: int
  ea_locktime :: int
  ea_threshold :: nat

text \<open>
  Everything the classes call that is not in the sources: the core object
  (\<^verbatim>\<open>getNetworkID\<close>, \<^verbatim>\<open>getHRP\<close>), the constants of utils/constants, the transport
  behind \<^verbatim>\<open>callMethod\<close> (its answer may depend on the calls made before), the codec
  \<^verbatim>\<open>bintools\<close> and the transaction assembly of \<^verbatim>\<open>UTXOSet\<close>. A collaborator that
  can throw returns a sum.
\<close>

record env =
  networkID :: nat
  hrp :: string
  Defaults_network :: "nat \<rightharpoonup> network_defaults"
  PlatformChainID :: string
  respond :: "rpc_call list \<Rightarrow> rpc_call \<Rightarrow> error + rpc_result"
  bintools_parseAddress :: "string \<Rightarrow> string \<Rightarrow> string option \<Rightarrow> nat \<Rightarrow> buffer option"
  bintools_cb58Decode :: "string \<Rightarrow> error + buffer"
  bintools_cb58Encode :: "js_arg \<Rightarrow> error + string"
  bintools_stringToAddress :: "string \<Rightarrow> error + buffer"
  bintools_addressToString :: "string \<Rightarrow> string option \<Rightarrow> buffer \<Rightarrow> string"
  UTXOSet_buildImportTx :: "utxo list \<Rightarrow> import_args \<Rightarrow> error + unsigned_tx"
  UTXOSet_buildExportTx :: "utxo list \<Rightarrow> export_args \<Rightarrow> error + unsigned_tx"

section \<open>The state of an API object\<close>

text \<open>
  The fields of the class that its methods read and write, the local store \<^verbatim>\<open>this.db\<close>
  and the log of the remote calls issued so far. A stored value is an array of serialised
  outputs or something else.
\<close>

datatype db_value = DBArray "utxo list" | DBOther string

record api =
  blockchainID :: string
  blockchainAlias :: "string option"
  AVAXAssetID :: "buffer option"
  txFee :: "int option"
  creationTxFee :: "int option"
  db :: "string \<rightharpoonup> db_value"
  rpc_log :: "rpc_call list"

text \<open>The constructor: the blockchain ID is stored, every cache starts empty.\<close>

definition new_api :: "string \<Rightarrow> api" where
  "new_api bid =
     \<lparr>blockchainID = bid, blockchainAlias = None, AVAXAssetID = None, txFee = None,
      creationTxFee = None, db = Map.empty, rpc_log = []\<rparr>"

text \<open>
  A method that can throw maps the state to an error or a value, and the state it leaves
  behind: the writes made before a \<^verbatim>\<open>throw\<close> stay.
\<close>

type_synonym 'a action = "api \<Rightarrow> (error + 'a) \<times> api"

definition ret :: "'a \<Rightarrow> 'a action" where
  "ret x = (\<lambda>s. (Inr x, s))"

definition throw :: "error \<Rightarrow> 'a action" where
  "throw err = (\<lambda>s. (Inl err, s))"

definition lift :: "error + 'a \<Rightarrow> 'a action" where
  "lift r = (\<lambda>s. (r, s))"

definition andThen :: "'a action \<Rightarrow> ('a \<Rightarrow> 'b action) \<Rightarrow> 'b action" where
  "andThen m f = (\<lambda>s. case m s of (Inl err, s') \<Rightarrow> (Inl err, s') | (Inr x, s') \<Rightarrow> f x s')"

fun mapM_sum :: "('a \<Rightarrow> error + 'b) \<Rightarrow> 'a list \<Rightarrow> error + 'b list" where
  "mapM_sum f [] = Inr []"
| "mapM_sum f (x # xs) =
     (case f x of
        Inl err \<Rightarrow> Inl err
      | Inr y \<Rightarrow> (case mapM_sum f xs of Inl err \<Rightarrow> Inl err | Inr ys \<Rightarrow> Inr (y # ys)))"

definition callMethod :: "env \<Rightarrow> string \<Rightarrow> rpc_params \<Rightarrow> rpc_result action" where
  "callMethod e m p = (\<lambda>s. (respond e (rpc_log s) (m, p), s\<lparr>rpc_log := rpc_log s @ [(m, p)]\<rparr>))"

section \<open>Chain context\<close>

definition getBlockchainAlias :: "env \<Rightarrow> api \<Rightarrow> string option \<times> api" where
  "getBlockchainAlias e s =
     (case blockchainAlias s of
        None \<Rightarrow>
          (case Defaults_network e (networkID e) of
             None \<Rightarrow> (None, s)
           | Some nd \<Rightarrow>
               (case chains nd (blockchainID s) of
                  None \<Rightarrow> (None, s)
                | Some cd \<Rightarrow> (cd_alias cd, s\<lparr>blockchainAlias := cd_alias cd\<rparr>)))
      | Some a \<Rightarrow> (Some a, s))"

definition getBlockchainID :: "api \<Rightarrow> string" where
  "getBlockchainID s = blockchainID s"



definition parseAddress :: "env \<Rightarrow> string \<Rightarrow> api \<Rightarrow> buffer option \<times> api" where
  "parseAddress e addr s =
     (case getBlockchainAlias e s of
        (al, s1) \<Rightarrow> (bintools_parseAddress e addr (getBlockchainID s1) al ADDRESSLENGTH, s1))"

section \<open>Fee and asset cache\<close>

definition getStakingAssetID :: "env \<Rightarrow> string action" where
  "getStakingAssetID e =
     andThen (callMethod e ''platform.getStakingAssetID'' NoParams)
       (\<lambda>r. case r of
               AssetIDResult a \<Rightarrow> ret a
             | _ \<Rightarrow> throw (CollaboratorError ''malformed response''))"

text \<open>
  \<^verbatim>\<open>getAVAXAssetID(refresh)\<close>. In \<^verbatim>\<open>EVMAPI\<close> the lookup is commented out and the
  body is \<^verbatim>\<open>return this.AVAXAssetID\<close>; in \<^verbatim>\<open>ContractVMAPI\<close> the lookup runs when the
  field is \<^verbatim>\<open>undefined\<close> or \<^verbatim>\<open>refresh\<close> is set.
\<close>

fun getAVAXAssetID :: "api_class \<Rightarrow> env \<Rightarrow> bool \<Rightarrow> (buffer option) action" where
  "getAVAXAssetID EVMAPI e refresh = (\<lambda>s. (Inr (AVAXAssetID s), s))"
| "getAVAXAssetID ContractVMAPI e refresh =
     (\<lambda>s. if AVAXAssetID s = None \<or> refresh then
             andThen (getStakingAssetID e)
               (\<lambda>assetID. andThen (lift (bintools_cb58Decode e assetID))
                  (\<lambda>b s'. (Inr (Some b), s'\<lparr>AVAXAssetID := Some b\<rparr>))) s
           else (Inr (AVAXAssetID s), s))"

fun fee_chain :: "api_class \<Rightarrow> network_defaults \<Rightarrow> chain_defaults" where
  "fee_chain EVMAPI nd = chain_C nd"
| "fee_chain ContractVMAPI nd = chain_P nd"

definition getDefaultTxFee :: "api_class \<Rightarrow> env \<Rightarrow> int" where
  "getDefaultTxFee cls e =
     (case Defaults_network e (networkID e) of
        Some nd \<Rightarrow> cd_txFee (fee_chain cls nd)
      | None \<Rightarrow> 0)"

definition getTxFee :: "api_class \<Rightarrow> env \<Rightarrow> api \<Rightarrow> int \<times> api" where
  "getTxFee cls e s =
     (case txFee s of
        None \<Rightarrow> (getDefaultTxFee cls e, s\<lparr>txFee := Some (getDefaultTxFee cls e)\<rparr>)
      | Some f \<Rightarrow> (f, s))"

section \<open>Fee-sanity guard\<close>

text \<open>
  \<^verbatim>\<open>checkGooseEgg(utx, outTotal)\<close>: the asset ID is read, then the output total (the
  argument when it is positive, the transaction's own total otherwise), then the burn;
  an exception of one of these calls ends the method.
\<close>

definition checkGooseEgg :: "api_class \<Rightarrow> env \<Rightarrow> unsigned_tx \<Rightarrow> int \<Rightarrow> bool action" where
  "checkGooseEgg cls e utx outTotal =
     andThen (getAVAXAssetID cls e False) (\<lambda>avaxAssetID.
     andThen (lift (if outTotal > 0 then Inr outTotal else getOutputTotal utx avaxAssetID))
       (\<lambda>outputTotal.
     andThen (lift (getBurn utx avaxAssetID)) (\<lambda>fee.
       if fee \<le> ONEAVAX * 10 \<or> fee \<le> outputTotal then ret True else ret False)))"

section \<open>Spendable-output sets and the local store\<close>

text \<open>
  Modelled from the spec: the class \<^verbatim>\<open>UTXOSet\<close> of utxos.ts is not among the sources.
  A set maps identity keys to outputs and is kept as the list of its outputs in insertion
  order, no two with the same key. Adding an output whose key is present changes nothing
  unless the caller asks for overwrite.
\<close>

definition getUTXOID :: "utxo \<Rightarrow> string \<times> nat" where
  "getUTXOID u = (utxo_txid u, utxo_outputidx u)"

definition UTXOSet_includes :: "utxo list \<Rightarrow> utxo \<Rightarrow> bool" where
  "UTXOSet_includes us u = list_ex (\<lambda>v. getUTXOID v = getUTXOID u) us"

definition UTXOSet_add :: "utxo \<Rightarrow> bool \<Rightarrow> utxo list \<Rightarrow> utxo list" where
  "UTXOSet_add u overwrite us =
     (if \<not> UTXOSet_includes us u then us @ [u]
      else if overwrite then map (\<lambda>v. if getUTXOID v = getUTXOID u then u else v) us
      else us)"

definition UTXOSet_addArray :: "utxo list \<Rightarrow> bool \<Rightarrow> utxo list \<Rightarrow> utxo list" where
  "UTXOSet_addArray arr overwrite us = fold (\<lambda>u acc. UTXOSet_add u overwrite acc) arr us"

definition getAllUTXOStrings :: "utxo list \<Rightarrow> utxo list" where
  "getAllUTXOStrings us = us"

definition getAllUTXOs :: "utxo list \<Rightarrow> utxo list" where
  "getAllUTXOs us = us"

text \<open>
  Modelled from the spec: the merge rules the specification names. The source calls
  \<^verbatim>\<open>self.mergeByRule(utxos, rule)\<close>, drops what the call returns and serialises
  \<^verbatim>\<open>self\<close> afterwards, so the function gives the contents of \<^verbatim>\<open>self\<close> after the call.
\<close>

datatype MergeRule = KeepExistingOnConflict | KeepIncomingOnConflict | UnionNoConflictExpected

fun mergeByRule :: "utxo list \<Rightarrow> utxo list \<Rightarrow> MergeRule \<Rightarrow> utxo list" where
  "mergeByRule self incoming KeepExistingOnConflict = UTXOSet_addArray incoming False self"
| "mergeByRule self incoming KeepIncomingOnConflict = UTXOSet_addArray incoming True self"
| "mergeByRule self incoming UnionNoConflictExpected = UTXOSet_addArray incoming False self"

record PersistanceOptions =
  po_name :: string
  po_overwrite :: bool
  po_mergeRule :: MergeRule

text \<open>
  Modelled from the spec: the key-value store behind \<^verbatim>\<open>this.db\<close> is not among the
  sources. A write with overwrite stores the value; a write without overwrite leaves a
  key that is present as it is.
\<close>

definition db_has :: "(string \<rightharpoonup> db_value) \<Rightarrow> string \<Rightarrow> bool" where
  "db_has d k = (d k \<noteq> None)"

definition db_set :: "(string \<rightharpoonup> db_value) \<Rightarrow> string \<Rightarrow> db_value \<Rightarrow> bool \<Rightarrow> (string \<rightharpoonup> db_value)" where
  "db_set d k v overwrite = (if \<not> overwrite \<and> db_has d k then d else d(k \<mapsto> v))"

record utxo_response =
  numFetched :: nat
  utxos :: "utxo list"
  endIndex :: "string \<times> string"

text \<open>
  \<^verbatim>\<open>getUTXOs(addresses, sourceChain, limit, startIndex, persistOpts)\<close>. The callback of
  the remote call starts with \<^verbatim>\<open>utxos\<close> empty and \<^verbatim>\<open>data\<close> the fetched array; the
  pair \<open>(utxos, data)\<close> below is their value when the write to the store is reached.
\<close>

definition getUTXOs ::
  "api_class \<Rightarrow> env \<Rightarrow> one_or_many \<Rightarrow> string option \<Rightarrow> int \<Rightarrow> (string \<times> string) option \<Rightarrow>
   PersistanceOptions option \<Rightarrow> utxo_response action" where
  "getUTXOs cls e addresses sourceChain limit startIndex persistOpts =
     andThen
       (callMethod e (rpc_prefix cls @ ''.getUTXOs'')
          (GetUTXOsParams (case addresses of One a \<Rightarrow> [a] | Many as \<Rightarrow> as) limit startIndex sourceChain))
       (\<lambda>r s.
          case r of
            UTXOsResult n fetched endIdx \<Rightarrow>
              (case persistOpts of
                 Some po \<Rightarrow>
                   (case (case db s (po_name po) of
                            Some (DBArray selfArray) \<Rightarrow>
                              (UTXOSet_addArray fetched False [],
                               getAllUTXOStrings
                                 (mergeByRule (UTXOSet_addArray selfArray False [])
                                    (UTXOSet_addArray fetched False []) (po_mergeRule po)))
                          | _ \<Rightarrow> ([], fetched)) of
                      (utxos0, data) \<Rightarrow>
                        (Inr \<lparr>numFetched = n, utxos = UTXOSet_addArray data False utxos0,
                              endIndex = endIdx\<rparr>,
                         s\<lparr>db := db_set (db s) (po_name po) (DBArray data) (po_overwrite po)\<rparr>))
               | None \<Rightarrow>
                   (Inr \<lparr>numFetched = n, utxos = UTXOSet_addArray fetched False [],
                         endIndex = endIdx\<rparr>, s))
          | _ \<Rightarrow> (Inl (CollaboratorError ''malformed response''), s))"

section \<open>Address arrays\<close>

text \<open>
  The loop of \<^verbatim>\<open>_cleanAddressArray\<close>: a string entry is parsed and kept, or the loop
  throws; a \<^verbatim>\<open>Buffer\<close> entry is turned into a string.
\<close>

fun cleanAddressLoop ::
  "api_class \<Rightarrow> env \<Rightarrow> string \<Rightarrow> string option \<Rightarrow> addr_entry list \<Rightarrow> string list \<Rightarrow>
   (string list) action" where
  "cleanAddressLoop cls e caller chainid [] addrs = (\<lambda>s. (Inr addrs, s))"
| "cleanAddressLoop cls e caller chainid (AddrStr a # rest) addrs =
     (\<lambda>s. case parseAddress e a s of
             (None, s1) \<Rightarrow>
               (Inl (AddressFormatError
                  (''Error - '' @ class_name cls @ ''.'' @ caller @ '': Invalid address format '' @ a)),
                s1)
           | (Some parsed, s1) \<Rightarrow> cleanAddressLoop cls e caller chainid rest (addrs @ [a]) s1)"
| "cleanAddressLoop cls e caller chainid (AddrBuf b # rest) addrs =
     cleanAddressLoop cls e caller chainid rest
       (addrs @ [bintools_addressToString e (hrp e) chainid b])"

text \<open>A string is truthy unless it is \<^verbatim>\<open>undefined\<close> or empty.\<close>

definition truthy :: "string option \<Rightarrow> bool" where
  "truthy v = (case v of None \<Rightarrow> False | Some str \<Rightarrow> str \<noteq> [])"

definition cleanAddressArray ::
  "api_class \<Rightarrow> env \<Rightarrow> addr_entry list option \<Rightarrow> string \<Rightarrow> (string list) action" where
  "cleanAddressArray cls e addresses caller =
     (\<lambda>s. case getBlockchainAlias e s of
             (a1, s1) \<Rightarrow>
               (case (if truthy a1 then getBlockchainAlias e s1
                      else (Some (getBlockchainID s1), s1)) of
                  (chainid, s2) \<Rightarrow>
                    (case addresses of
                       None \<Rightarrow> (Inr [], s2)
                     | Some entries \<Rightarrow> cleanAddressLoop cls e caller chainid entries [] s2)))"

definition cleanAddresses ::
  "api_class \<Rightarrow> env \<Rightarrow> addr_entry list option \<Rightarrow> string \<Rightarrow> (buffer list) action" where
  "cleanAddresses cls e addresses caller =
     andThen (cleanAddressArray cls e addresses caller)
       (\<lambda>strs. lift (mapM_sum (bintools_stringToAddress e) strs))"

section \<open>Atomic transaction builders\<close>

text \<open>
  The source-chain argument of \<^verbatim>\<open>buildImportTx\<close>: the textual form kept for the
  fetch (\<^verbatim>\<open>srcChain\<close>) and the bytes.
\<close>

definition importSourceChain :: "api_class \<Rightarrow> env \<Rightarrow> js_arg \<Rightarrow> error + (string option \<times> buffer)" where
  "importSourceChain cls e sourceChain =
     (case sourceChain of
        JUndefined \<Rightarrow>
          Inl (MissingChainID
            (''Error - '' @ class_name cls @ ''.buildImportTx: Source ChainID is undefined.''))
      | JString str \<Rightarrow>
          (case bintools_cb58Decode e str of
             Inl err \<Rightarrow> Inl err
           | Inr b \<Rightarrow> Inr (Some str, b))
      | JBuffer b \<Rightarrow> Inr (None, b)
      | JOther ty \<Rightarrow>
          (case bintools_cb58Encode e sourceChain of
             Inl err \<Rightarrow> Inl err
           | Inr encoded \<Rightarrow>
               Inl (InvalidChainIDType
                 (''Error - '' @ class_name cls @ ''.buildImportTx: Invalid destinationChain type: '' @ ty))))"

definition normalizeMemo :: "memo_arg \<Rightarrow> buffer option" where
  "normalizeMemo memo =
     (case memo of
        MemoUndefined \<Rightarrow> None
      | MemoPayload payload \<Rightarrow> Some payload
      | MemoBuffer b \<Rightarrow> Some b)"

text \<open>
  \<^verbatim>\<open>buildImportTx\<close> up to and including the call of \<^verbatim>\<open>utxoset.buildImportTx\<close>, which
  assembles the unsigned transaction. The caller name handed to
  \<^verbatim>\<open>_cleanAddressArray\<close> is the literal \<^verbatim>\<open>'buildBaseTx'\<close> of the source.
\<close>

definition buildImportTx_assemble ::
  "api_class \<Rightarrow> env \<Rightarrow> utxo list \<Rightarrow> string list \<Rightarrow> js_arg \<Rightarrow> addr_entry list option \<Rightarrow>
   addr_entry list option \<Rightarrow> addr_entry list option \<Rightarrow> memo_arg \<Rightarrow> int \<Rightarrow> int \<Rightarrow> nat \<Rightarrow>
   unsigned_tx action" where
  "buildImportTx_assemble cls e utxoset ownerAddresses sourceChain toAddresses fromAddresses
     changeAddresses memo asOf locktime threshold =
     andThen (cleanAddresses cls e toAddresses ''buildBaseTx'') (\<lambda>to_bufs.
     andThen (cleanAddresses cls e fromAddresses ''buildBaseTx'') (\<lambda>from_bufs.
     andThen (cleanAddresses cls e changeAddresses ''buildBaseTx'') (\<lambda>change_bufs.
     andThen (lift (importSourceChain cls e sourceChain)) (\<lambda>(srcChain, sourceChainBuf).
     andThen (getUTXOs cls e (Many ownerAddresses) srcChain 0 None None) (\<lambda>response.
     andThen (getAVAXAssetID cls e False) (\<lambda>avaxAssetID.
     andThen (\<lambda>s. (bintools_cb58Decode e (blockchainID s), s)) (\<lambda>bid.
     andThen (\<lambda>s. case getTxFee cls e s of (fee, s') \<Rightarrow> (Inr fee, s')) (\<lambda>fee.
     lift (UTXOSet_buildImportTx e utxoset
       \<lparr>ia_networkid = networkID e, ia_blockchainid = bid, ia_to = to_bufs,
        ia_from = from_bufs, ia_change = change_bufs,
        ia_atomics = getAllUTXOs (utxos response), ia_sourceChain = sourceChainBuf,
        ia_fee = fee, ia_feeAssetID = avaxAssetID, ia_memo = normalizeMemo memo,
        ia_asOf = asOf, ia_locktime = locktime, ia_threshold = threshold\<rparr>)))))))))"

definition buildImportTx ::
  "api_class \<Rightarrow> env \<Rightarrow> utxo list \<Rightarrow> string list \<Rightarrow> js_arg \<Rightarrow> addr_entry list option \<Rightarrow>
   addr_entry list option \<Rightarrow> addr_entry list option \<Rightarrow> memo_arg \<Rightarrow> int \<Rightarrow> int \<Rightarrow> nat \<Rightarrow>
   unsigned_tx action" where
  "buildImportTx cls e utxoset ownerAddresses sourceChain toAddresses fromAddresses
     changeAddresses memo asOf locktime threshold =
     andThen
       (buildImportTx_assemble cls e utxoset ownerAddresses sourceChain toAddresses
          fromAddresses changeAddresses memo asOf locktime threshold)
       (\<lambda>builtUnsignedTx.
          andThen (checkGooseEgg cls e builtUnsignedTx 0)
            (\<lambda>passed. if \<not> passed then throw (FeeSanityError ''Failed Goose Egg Check'')
                       else ret builtUnsignedTx))"

text \<open>
  The object \<^verbatim>\<open>prefixes\<close> of \<^verbatim>\<open>buildExportTx\<close> starts as the literal \<^verbatim>\<open>{}\<close> and is
  written by \<^verbatim>\<open>prefixes[k] = true\<close>; it is kept as the list of its own keys. The
  assignment adds the key \<open>k\<close> when it is not there yet, with one exception: for the key
  \<^verbatim>\<open>__proto__\<close> the assignment reaches the setter that every object literal inherits
  from \<^verbatim>\<open>Object.prototype\<close>, and that setter ignores a value that is neither an object
  nor \<^verbatim>\<open>null\<close>, so no own key is added. \<^verbatim>\<open>Object.keys\<close> returns the own keys.
\<close>

definition object_assign_true :: "string list \<Rightarrow> string \<Rightarrow> string list" where
  "object_assign_true keys k =
     (if k = ''__proto__'' then keys else if k \<in> set keys then keys else keys @ [k])"

definition Object_keys :: "string list \<Rightarrow> string list" where
  "Object_keys obj = obj"

text \<open>\<^verbatim>\<open>a.split("-")[0]\<close>: the part of the string before its first separator.\<close>

definition split_first :: "string \<Rightarrow> string" where
  "split_first a = takeWhile (\<lambda>c. c \<noteq> CHR ''-'') a"

definition exportPrefixes :: "string list \<Rightarrow> string list" where
  "exportPrefixes toAddresses =
     fold (\<lambda>a prefixes. object_assign_true prefixes (split_first a)) toAddresses []"

text \<open>The two statements of \<^verbatim>\<open>buildExportTx\<close> that check the destination chain.\<close>

definition exportDestinationChain :: "api_class \<Rightarrow> env \<Rightarrow> js_arg \<Rightarrow> error + buffer" where
  "exportDestinationChain cls e destinationChain =
     (case (case destinationChain of
              JUndefined \<Rightarrow>
                Inl (MissingChainID
                  (''Error - '' @ class_name cls @ ''.buildExportTx: Destination ChainID is undefined.''))
            | JString str \<Rightarrow> bintools_cb58Decode e str
            | JBuffer b \<Rightarrow> Inr b
            | JOther ty \<Rightarrow>
                Inl (InvalidChainIDType
                  (''Error - '' @ class_name cls @ ''.buildExportTx: Invalid destinationChain type: '' @ ty))) of
        Inl err \<Rightarrow> Inl err
      | Inr b \<Rightarrow>
          if length b \<noteq> 32 then
            Inl (InvalidChainIDLength
              (''Error - '' @ class_name cls @ ''.buildExportTx: Destination ChainID must be 32 bytes in length.''))
          else Inr b)"

text \<open>
  \<^verbatim>\<open>buildExportTx\<close> from the statement after the destination-chain check up to and
  including the call of \<^verbatim>\<open>utxoset.buildExportTx\<close>.
\<close>

definition buildExportTx_build ::
  "api_class \<Rightarrow> env \<Rightarrow> utxo list \<Rightarrow> int \<Rightarrow> buffer \<Rightarrow> string list \<Rightarrow> addr_entry list option \<Rightarrow>
   addr_entry list option \<Rightarrow> memo_arg \<Rightarrow> int \<Rightarrow> int \<Rightarrow> nat \<Rightarrow> unsigned_tx action" where
  "buildExportTx_build cls e utxoset amount destinationChainBuf toAddresses fromAddresses
     changeAddresses memo asOf locktime threshold =
     andThen (lift (mapM_sum (bintools_stringToAddress e) toAddresses)) (\<lambda>to_bufs.
     andThen (cleanAddresses cls e fromAddresses ''buildExportTx'') (\<lambda>from_bufs.
     andThen (cleanAddresses cls e changeAddresses ''buildExportTx'') (\<lambda>change_bufs.
     andThen (getAVAXAssetID cls e False) (\<lambda>avaxAssetID.
     andThen (\<lambda>s. (bintools_cb58Decode e (blockchainID s), s)) (\<lambda>bid.
     andThen (\<lambda>s. case getTxFee cls e s of (fee, s') \<Rightarrow> (Inr fee, s')) (\<lambda>fee.
     lift (UTXOSet_buildExportTx e utxoset
       \<lparr>ea_networkid = networkID e, ea_blockchainid = bid, ea_amount = amount,
        ea_assetID = avaxAssetID, ea_to = to_bufs, ea_from = from_bufs,
        ea_change = change_bufs, ea_destinationChain = destinationChainBuf, ea_fee = fee,
        ea_feeAssetID = avaxAssetID, ea_memo = normalizeMemo memo, ea_asOf = asOf,
        ea_locktime = locktime, ea_threshold = threshold\<rparr>)))))))"

text \<open>\<^verbatim>\<open>buildExportTx\<close> up to the assembled transaction: the prefix check, the
  destination-chain check, the assembly.\<close>

definition buildExportTx_assemble ::
  "api_class \<Rightarrow> env \<Rightarrow> utxo list \<Rightarrow> int \<Rightarrow> js_arg \<Rightarrow> string list \<Rightarrow> addr_entry list option \<Rightarrow>
   addr_entry list option \<Rightarrow> memo_arg \<Rightarrow> int \<Rightarrow> int \<Rightarrow> nat \<Rightarrow> unsigned_tx action" where
  "buildExportTx_assemble cls e utxoset amount destinationChain toAddresses fromAddresses
     changeAddresses memo asOf locktime threshold =
     (if length (Object_keys (exportPrefixes toAddresses)) \<noteq> 1 then
        throw (MixedDestinationChainError
          (''Error - '' @ class_name cls @ ''.buildExportTx: To addresses must have the same chainID prefix.''))
      else
        andThen (lift (exportDestinationChain cls e destinationChain))
          (\<lambda>destinationChainBuf.
             buildExportTx_build cls e utxoset amount destinationChainBuf toAddresses
               fromAddresses changeAddresses memo asOf locktime threshold))"

definition buildExportTx ::
  "api_class \<Rightarrow> env \<Rightarrow> utxo list \<Rightarrow> int \<Rightarrow> js_arg \<Rightarrow> string list \<Rightarrow> addr_entry list option \<Rightarrow>
   addr_entry list option \<Rightarrow> memo_arg \<Rightarrow> int \<Rightarrow> int \<Rightarrow> nat \<Rightarrow> unsigned_tx action" where
  "buildExportTx cls e utxoset amount destinationChain toAddresses fromAddresses
     changeAddresses memo asOf locktime threshold =
     andThen
       (buildExportTx_assemble cls e utxoset amount destinationChain toAddresses
          fromAddresses changeAddresses memo asOf locktime threshold)
       (\<lambda>builtUnsignedTx.
          andThen (checkGooseEgg cls e builtUnsignedTx 0)
            (\<lambda>passed. if \<not> passed then throw (FeeSanityError ''Failed Goose Egg Check'')
                       else ret builtUnsignedTx))"

section \<open>A concrete environment for the examples\<close>

text \<open>
  The examples below run the model with these collaborators: one network with a C-Chain
  and a P-Chain, a transport that answers the asset lookup with a fixed identifier and a
  fetch with the given outputs, a codec that reads a string as its bytes and accepts an
  address when its prefix is the chain's alias or ID, and an assembly that returns the
  given transaction.
\<close>

definition bytes_of :: "string \<Rightarrow> buffer" where
  "bytes_of str = map (\<lambda>c. of_nat (of_char c)) str"

definition demo_chain_C :: chain_defaults where
  "demo_chain_C =
     \<lparr>cd_blockchainID = ''chainC'', cd_alias = Some ''C'', cd_txFee = 1000000,
      cd_creationTxFee = 10000000\<rparr>"

definition demo_chain_P :: chain_defaults where
  "demo_chain_P =
     \<lparr>cd_blockchainID = ''chainP'', cd_alias = Some ''P'', cd_txFee = 1000000,
      cd_creationTxFee = 10000000\<rparr>"

definition demo_network :: network_defaults where
  "demo_network =
     \<lparr>chain_C = demo_chain_C, chain_P = demo_chain_P,
      chains = [''chainC'' \<mapsto> demo_chain_C, ''chainP'' \<mapsto> demo_chain_P]\<rparr>"

definition demo_env :: "utxo list \<Rightarrow> unsigned_tx \<Rightarrow> env" where
  "demo_env fetched built =
     \<lparr>networkID = 1, hrp = ''avax'', Defaults_network = [1 \<mapsto> demo_network],
      PlatformChainID = ''chainP'',
      respond = (\<lambda>log c. if fst c = ''platform.getStakingAssetID'' then Inr (AssetIDResult ''AVAX'')
                          else Inr (UTXOsResult (length fetched) fetched ('''', ''''))),
      bintools_parseAddress =
        (\<lambda>addr bid al n. if Some (split_first addr) = al \<or> split_first addr = bid
                          then Some (replicate n 0) else None),
      bintools_cb58Decode = (\<lambda>str. Inr (bytes_of str)),
      bintools_cb58Encode = (\<lambda>v. Inr ''''),
      bintools_stringToAddress = (\<lambda>str. Inr (bytes_of str)),
      bintools_addressToString = (\<lambda>h c b. h),
      UTXOSet_buildImportTx = (\<lambda>us args. Inr built),
      UTXOSet_buildExportTx = (\<lambda>us args. Inr built)\<rparr>"

definition demo_tx :: "int \<Rightarrow> int \<Rightarrow> unsigned_tx" where
  "demo_tx total_in total_out =
     \<lparr>tx_kind = ExportTx, tx_ins = [(bytes_of ''AVAX'', total_in)],
      tx_outs = [(bytes_of ''AVAX'', total_out)], tx_chain = [], tx_memo = None\<rparr>"

definition demo_utxo :: "int \<Rightarrow> utxo" where
  "demo_utxo amt =
     \<lparr>utxo_txid = ''tx1'', utxo_outputidx = 0, utxo_assetID = bytes_of ''AVAX'',
      utxo_amount = amt, utxo_owners = [''C-owner''], utxo_threshold = 1, utxo_locktime = 0\<rparr>"

text \<open>An API object on the C-Chain whose native asset ID has been set.\<close>

definition demo_api :: api where
  "demo_api = (new_api ''chainC'')\<lparr>AVAXAssetID := Some (bytes_of ''AVAX'')\<rparr>"

section \<open>Fee-sanity guard: the acceptance rule\<close>

lemma demo_getAVAXAssetID:
  "getAVAXAssetID EVMAPI e False demo_api = (Inr (Some (bytes_of ''AVAX'')), demo_api)"
  by (simp add: demo_api_def new_api_def)

lemma demo_tx_burn: "getBurn (demo_tx i out) (Some (bytes_of ''AVAX'')) = Inr (i - out)"
  by (simp add: getBurn_def getInputTotal_def getOutputTotal_def asset_total_def demo_tx_def)

lemma demo_tx_output: "getOutputTotal (demo_tx i out) (Some (bytes_of ''AVAX'')) = Inr out"
  by (simp add: getOutputTotal_def asset_total_def demo_tx_def)

text \<open>
  With an asset ID at hand the guard accepts exactly when the burn in that asset is at
  most the larger of ten native units and the output total; with no asset ID it throws.
\<close>

lemma checkGooseEgg_with_asset:
  assumes "getAVAXAssetID cls e False s = (Inr (Some a), s')"
  shows "checkGooseEgg cls e utx outTotal s =
    (Inr (asset_total (tx_ins utx) a - asset_total (tx_outs utx) a \<le>
            max (10 * ONEAVAX)
              (if 0 < outTotal then outTotal else asset_total (tx_outs utx) a)),
     s')"
  using assms
  by (auto simp: checkGooseEgg_def andThen_def ret_def lift_def getBurn_def getInputTotal_def
      getOutputTotal_def max_def)

lemma checkGooseEgg_without_asset:
  assumes "getAVAXAssetID cls e False s = (Inr None, s')"
  shows "checkGooseEgg cls e utx outTotal s =
    (Inl (TypeError ''Cannot read properties of undefined (reading toString)''), s')"
  using assms
  by (auto simp: checkGooseEgg_def andThen_def lift_def getBurn_def getInputTotal_def
      getOutputTotal_def)

text \<open>
  Claim C1. The fee-sanity guard \<^verbatim>\<open>checkGooseEgg\<close> accepts a transaction if and only
  if its burn in the native asset is at most the larger of ten native units and the
  output total, where the output total is the explicitly supplied total when that
  argument is positive and otherwise the transaction's own total output amount in the
  native asset; in particular a burn of 0 is always accepted. Once the asset ID is cached
  the guard follows this rule (lemma \<open>checkGooseEgg_with_asset\<close>). On an
  \<^verbatim>\<open>EVMAPI\<close> object whose asset ID was never set, \<^verbatim>\<open>getAVAXAssetID\<close> returns
  \<^verbatim>\<open>undefined\<close> and the guard throws on every transaction, with or without an
  explicit output total: a transaction that burns nothing of the native asset, which the
  guard accepts once the asset ID is set, is not accepted there.
\<close>

theorem checkGooseEgg_unset_asset_throws:
  "checkGooseEgg EVMAPI (demo_env [] (demo_tx 0 0)) (demo_tx 7 7) 0 (new_api ''chainC'') =
     (Inl (TypeError ''Cannot read properties of undefined (reading toString)''),
      new_api ''chainC'') \<and>
   getBurn (demo_tx 7 7) (Some (bytes_of ''AVAX'')) = Inr 0 \<and>
   checkGooseEgg EVMAPI (demo_env [] (demo_tx 0 0)) (demo_tx 7 7) 0 demo_api =
     (Inr True, demo_api) \<and>
   checkGooseEgg EVMAPI (demo_env [] (demo_tx 0 0)) (demo_tx 7 7) 5 (new_api ''chainC'') =
     (Inl (TypeError ''Cannot read properties of undefined (reading toString)''),
      new_api ''chainC'')"
proof -
  let ?e = "demo_env [] (demo_tx 0 0)"
  have n: "getAVAXAssetID EVMAPI ?e False (new_api ''chainC'') = (Inr None, new_api ''chainC'')"
    by (simp add: new_api_def)
  have b: "getBurn (demo_tx 7 7) (Some (bytes_of ''AVAX'')) = Inr 0"
    by (simp add: demo_tx_burn)
  have g: "checkGooseEgg EVMAPI ?e (demo_tx 7 7) 0 demo_api = (Inr True, demo_api)"
    by (simp add: checkGooseEgg_with_asset [OF demo_getAVAXAssetID] asset_total_def
        demo_tx_def ONEAVAX_def)
  from checkGooseEgg_without_asset [OF n] b g show ?thesis
    by simp
qed

section \<open>Native asset ID\<close>

lemma contract_getAVAXAssetID_cached:
  "AVAXAssetID s = Some a \<Longrightarrow> getAVAXAssetID ContractVMAPI e False s = (Inr (Some a), s)"
  by simp

lemma contract_getAVAXAssetID_lookup:
  assumes "AVAXAssetID s = None \<or> refresh"
    and "respond e (rpc_log s) (''platform.getStakingAssetID'', NoParams) = Inr (AssetIDResult str)"
    and "bintools_cb58Decode e str = Inr b"
  shows "getAVAXAssetID ContractVMAPI e refresh s =
    (Inr (Some b),
     s\<lparr>rpc_log := rpc_log s @ [(''platform.getStakingAssetID'', NoParams)],
       AVAXAssetID := Some b\<rparr>)"
  using assms
  by (auto simp: getStakingAssetID_def callMethod_def andThen_def ret_def lift_def)

text \<open>
  Claim C2. \<^verbatim>\<open>getAVAXAssetID\<close> returns the cached asset ID unless it is absent or the
  refresh flag is true, and in that case it issues the staking-asset lookup, decodes the
  answer and caches it, on either API class. \<^verbatim>\<open>ContractVMAPI\<close> does so (the two lemmas
  above). In \<^verbatim>\<open>EVMAPI\<close> the lookup is commented out: on a new object, with the refresh
  flag set, the method returns \<^verbatim>\<open>undefined\<close>, issues no call and caches nothing.
\<close>

theorem evm_getAVAXAssetID_no_lookup:
  "getAVAXAssetID EVMAPI (demo_env [] (demo_tx 0 0)) True (new_api ''chainC'') =
     (Inr None, new_api ''chainC'') \<and>
   rpc_log (new_api ''chainC'') = [] \<and>
   AVAXAssetID (new_api ''chainC'') = None"
  by (simp add: new_api_def)

section \<open>Refreshing the blockchain ID\<close>



section \<open>Export: the destination-prefix check\<close>

lemma set_fold_object_assign_true:
  "set (fold (\<lambda>a prefixes. object_assign_true prefixes (f a)) tos acc) =
     set acc \<union> (f ` set tos - {''__proto__''})"
  by (induction tos arbitrary: acc) (auto simp: object_assign_true_def)

lemma distinct_fold_object_assign_true:
  "distinct acc \<Longrightarrow> distinct (fold (\<lambda>a prefixes. object_assign_true prefixes (f a)) tos acc)"
  by (induction tos arbitrary: acc) (auto simp: object_assign_true_def)

lemma set_exportPrefixes:
  "set (exportPrefixes tos) = split_first ` set tos - {''__proto__''}"
  by (simp add: exportPrefixes_def set_fold_object_assign_true)

lemma distinct_exportPrefixes: "distinct (exportPrefixes tos)"
  by (simp add: exportPrefixes_def distinct_fold_object_assign_true)

lemma length_exportPrefixes:
  "length (Object_keys (exportPrefixes tos)) = card (split_first ` set tos - {''__proto__''})"
  using distinct_card [OF distinct_exportPrefixes, of tos]
  by (simp add: Object_keys_def set_exportPrefixes)

lemma exportPrefixes_one_prefix:
  assumes "tos \<noteq> []" and "\<forall>a \<in> set tos. split_first a = p" and "p \<noteq> ''__proto__''"
  shows "length (Object_keys (exportPrefixes tos)) = 1"
proof -
  from assms(1,2) have "split_first ` set tos = {p}"
    by (cases tos) auto
  with assms(3) show ?thesis
    by (simp add: length_exportPrefixes)
qed

lemma exportPrefixes_two_prefixes:
  assumes "a \<in> set tos" and "b \<in> set tos" and "split_first a \<noteq> split_first b"
    and "split_first a \<noteq> ''__proto__''" and "split_first b \<noteq> ''__proto__''"
  shows "length (Object_keys (exportPrefixes tos)) \<ge> 2"
proof -
  let ?S = "split_first ` set tos - {''__proto__''}"
  have "{split_first a, split_first b} \<subseteq> ?S"
    using assms by auto
  then have "card {split_first a, split_first b} \<le> card ?S"
    by (intro card_mono) auto
  with assms(3) show ?thesis
    by (simp add: length_exportPrefixes)
qed

lemma buildExportTx_prefix_check_fails:
  "length (Object_keys (exportPrefixes tos)) \<noteq> 1 \<Longrightarrow>
   buildExportTx cls e utxoset amount dc tos fromAddresses changeAddresses memo asOf
     locktime threshold s =
   (Inl (MixedDestinationChainError
      (''Error - '' @ class_name cls @ ''.buildExportTx: To addresses must have the same chainID prefix.'')),
    s)"
  by (simp add: buildExportTx_def buildExportTx_assemble_def andThen_def throw_def)

text \<open>
  Claim C5. For every non-empty \<^verbatim>\<open>toAddresses\<close> list whose entries all share one
  chain-scoping prefix, \<^verbatim>\<open>buildExportTx\<close> passes the destination-prefix check; for
  every list with at least two distinct prefixes it raises MixedDestinationChainError.
  The code does so for every prefix but \<^verbatim>\<open>__proto__\<close> (lemmas
  \<open>exportPrefixes_one_prefix\<close> and \<open>exportPrefixes_two_prefixes\<close>). The prefix
  \<^verbatim>\<open>__proto__\<close> is never recorded in the object \<^verbatim>\<open>prefixes\<close>: a list whose entries
  all have it is rejected with the message that the addresses must have the same prefix,
  and a list that mixes it with one other prefix passes the check.
\<close>

theorem buildExportTx_proto_prefix:
  "buildExportTx cls e utxoset amount dc [''__proto__-abc''] fromAddresses changeAddresses
     memo asOf locktime threshold s =
   (Inl (MixedDestinationChainError
      (''Error - '' @ class_name cls @ ''.buildExportTx: To addresses must have the same chainID prefix.'')),
    s) \<and>
   split_first ''__proto__-abc'' = ''__proto__'' \<and>
   Object_keys (exportPrefixes [''__proto__-abc'']) = [] \<and>
   Object_keys (exportPrefixes [''__proto__-abc'', ''X-def'']) = [''X'']"
proof -
  have k: "Object_keys (exportPrefixes [''__proto__-abc'']) = []"
    by (simp add: Object_keys_def exportPrefixes_def object_assign_true_def split_first_def)
  have m: "Object_keys (exportPrefixes [''__proto__-abc'', ''X-def'']) = [''X'']"
    by (simp add: Object_keys_def exportPrefixes_def object_assign_true_def split_first_def)
  have p: "split_first ''__proto__-abc'' = ''__proto__''"
    by (simp add: split_first_def)
  from k have "length (Object_keys (exportPrefixes [''__proto__-abc''])) \<noteq> 1"
    by simp
  from buildExportTx_prefix_check_fails [OF this] k m p show ?thesis
    by blast
qed

lemma buildExportTx_rejects_like_empty_list:
  "buildExportTx cls e utxoset amount dc [] fromAddresses changeAddresses memo asOf
     locktime threshold s =
   (Inl (MixedDestinationChainError
      (''Error - '' @ class_name cls @ ''.buildExportTx: To addresses must have the same chainID prefix.'')),
    s) \<and>
   (a \<in> set tos \<and> b \<in> set tos \<and> split_first a \<noteq> split_first b \<and>
    split_first a \<noteq> ''__proto__'' \<and> split_first b \<noteq> ''__proto__'' \<longrightarrow>
    buildExportTx cls e utxoset amount dc tos fromAddresses changeAddresses memo asOf
      locktime threshold s =
    buildExportTx cls e utxoset amount dc [] fromAddresses changeAddresses memo asOf
      locktime threshold s)"
proof -
  have "Object_keys (exportPrefixes []) = []"
    by (simp add: Object_keys_def exportPrefixes_def)
  then have z: "length (Object_keys (exportPrefixes [])) \<noteq> 1"
    by simp
  note empty = buildExportTx_prefix_check_fails [OF z]
  have two: "length (Object_keys (exportPrefixes tos)) \<noteq> 1"
    if "a \<in> set tos" "b \<in> set tos" "split_first a \<noteq> split_first b"
      "split_first a \<noteq> ''__proto__''" "split_first b \<noteq> ''__proto__''"
    using exportPrefixes_two_prefixes [OF that] by simp
  show ?thesis
    using two by (auto simp: empty buildExportTx_prefix_check_fails)
qed


section \<open>Export: the destination chain\<close>

text \<open>
  Claim C4. \<^verbatim>\<open>buildExportTx\<close> validates its \<^verbatim>\<open>destinationChain\<close> argument: an absent
  value raises MissingChainID; a textual value is decoded to bytes and then treated as
  those bytes; a value that is neither textual nor a \<^verbatim>\<open>Buffer\<close> raises
  InvalidChainIDType; bytes whose number is not 32 raise InvalidChainIDLength; for exactly
  32 bytes the validation succeeds. In \<^verbatim>\<open>buildExportTx\<close> the validation runs once the
  prefix check has passed: its error is the error of the builder, and on success the
  builder goes on with the validated bytes.
\<close>

theorem buildExportTx_destinationChain_validation:
  "exportDestinationChain cls e JUndefined =
     Inl (MissingChainID
       (''Error - '' @ class_name cls @ ''.buildExportTx: Destination ChainID is undefined.'')) \<and>
   (bintools_cb58Decode e str = Inr b \<longrightarrow>
      exportDestinationChain cls e (JString str) = exportDestinationChain cls e (JBuffer b)) \<and>
   exportDestinationChain cls e (JOther ty) =
     Inl (InvalidChainIDType
       (''Error - '' @ class_name cls @ ''.buildExportTx: Invalid destinationChain type: '' @ ty)) \<and>
   (length b \<noteq> 32 \<longrightarrow>
      exportDestinationChain cls e (JBuffer b) =
        Inl (InvalidChainIDLength
          (''Error - '' @ class_name cls @ ''.buildExportTx: Destination ChainID must be 32 bytes in length.''))) \<and>
   (length b = 32 \<longrightarrow> exportDestinationChain cls e (JBuffer b) = Inr b) \<and>
   (length (Object_keys (exportPrefixes toAddresses)) = 1 \<and>
    exportDestinationChain cls e dc = Inl err \<longrightarrow>
      buildExportTx cls e utxoset amount dc toAddresses fromAddresses changeAddresses memo
        asOf locktime threshold s = (Inl err, s)) \<and>
   (length (Object_keys (exportPrefixes toAddresses)) = 1 \<and>
    exportDestinationChain cls e dc = Inr dest \<longrightarrow>
      buildExportTx_assemble cls e utxoset amount dc toAddresses fromAddresses
        changeAddresses memo asOf locktime threshold s =
      buildExportTx_build cls e utxoset amount dest toAddresses fromAddresses
        changeAddresses memo asOf locktime threshold s)"
  by (simp add: exportDestinationChain_def buildExportTx_def buildExportTx_assemble_def
      andThen_def lift_def)

theorem buildExportTx_destinationChain_validation_witness:
  "exportDestinationChain EVMAPI (demo_env [] (demo_tx 7 7))
     (JString ''0123456789abcdef0123456789abcdef'') =
     Inr (bytes_of ''0123456789abcdef0123456789abcdef'') \<and>
   exportDestinationChain EVMAPI (demo_env [] (demo_tx 7 7)) (JString ''chainX'') =
     Inl (InvalidChainIDLength
       ''Error - EVMAPI.buildExportTx: Destination ChainID must be 32 bytes in length.'') \<and>
   buildExportTx EVMAPI (demo_env [] (demo_tx 7 7)) [] 5 JUndefined [''X-to''] None None
     MemoUndefined 0 0 1 demo_api =
     (Inl (MissingChainID ''Error - EVMAPI.buildExportTx: Destination ChainID is undefined.''),
      demo_api) \<and>
   buildExportTx_assemble EVMAPI (demo_env [] (demo_tx 7 7)) [] 5
     (JBuffer (bytes_of ''0123456789abcdef0123456789abcdef'')) [''X-to''] None None
     MemoUndefined 0 0 1 demo_api =
   buildExportTx_build EVMAPI (demo_env [] (demo_tx 7 7)) [] 5
     (bytes_of ''0123456789abcdef0123456789abcdef'') [''X-to''] None None
     MemoUndefined 0 0 1 demo_api"
proof -
  let ?e = "demo_env [] (demo_tx 7 7)"
  let ?long = "''0123456789abcdef0123456789abcdef''"
  have dl: "bintools_cb58Decode ?e ?long = Inr (bytes_of ?long)"
    and ds: "bintools_cb58Decode ?e ''chainX'' = Inr (bytes_of ''chainX'')"
    by (simp_all add: demo_env_def)
  have ll: "length (bytes_of ?long) = 32" and ls: "length (bytes_of ''chainX'') \<noteq> 32"
    by (simp_all add: bytes_of_def)
  have px: "length (Object_keys (exportPrefixes [''X-to''])) = 1"
    by (simp add: Object_keys_def exportPrefixes_def object_assign_true_def split_first_def)
  note long = buildExportTx_destinationChain_validation
    [of EVMAPI ?e ?long "bytes_of ?long" _ "[''X-to'']" JUndefined _ "[]" 5 None None
      MemoUndefined 0 0 1 demo_api]
  note short = buildExportTx_destinationChain_validation
    [of EVMAPI ?e "''chainX''" "bytes_of ''chainX''" _ "[''X-to'']"
      "JBuffer (bytes_of ?long)" _ "[]" 5 None None MemoUndefined 0 0 1 demo_api
      "bytes_of ?long"]
  have a: "exportDestinationChain EVMAPI ?e (JString ?long) = Inr (bytes_of ?long)"
    using long dl ll by simp
  have b: "exportDestinationChain EVMAPI ?e (JString ''chainX'') =
      Inl (InvalidChainIDLength
        ''Error - EVMAPI.buildExportTx: Destination ChainID must be 32 bytes in length.'')"
    using short ds ls by simp
  have c: "buildExportTx EVMAPI ?e [] 5 JUndefined [''X-to''] None None MemoUndefined 0 0 1
      demo_api =
      (Inl (MissingChainID ''Error - EVMAPI.buildExportTx: Destination ChainID is undefined.''),
       demo_api)"
    using long px by simp
  have d: "buildExportTx_assemble EVMAPI ?e [] 5 (JBuffer (bytes_of ?long)) [''X-to''] None
      None MemoUndefined 0 0 1 demo_api =
      buildExportTx_build EVMAPI ?e [] 5 (bytes_of ?long) [''X-to''] None None MemoUndefined
        0 0 1 demo_api"
    using short px long ll by simp
  from a b c d show ?thesis by blast
qed

section \<open>The fee-sanity guard in the builders\<close>

lemma andThen_Inr:
  "andThen m f s = (Inr y, s') \<Longrightarrow> \<exists>x s1. m s = (Inr x, s1) \<and> f x s1 = (Inr y, s')"
  by (auto simp: andThen_def split: prod.splits sum.splits)

lemma guard_returns:
  assumes "andThen assemble
      (\<lambda>built. andThen (checkGooseEgg cls e built 0)
         (\<lambda>passed. if \<not> passed then throw (FeeSanityError msg) else ret built)) s =
      (Inr u, s')"
  shows "\<exists>s1. assemble s = (Inr u, s1) \<and> checkGooseEgg cls e u 0 s1 = (Inr True, s')"
proof -
  from andThen_Inr [OF assms] obtain built s1 where
    a: "assemble s = (Inr built, s1)" and
    g: "andThen (checkGooseEgg cls e built 0)
          (\<lambda>passed. if \<not> passed then throw (FeeSanityError msg) else ret built) s1 =
        (Inr u, s')"
    by blast
  from andThen_Inr [OF g] obtain passed s2 where
    c: "checkGooseEgg cls e built 0 s1 = (Inr passed, s2)" and
    r: "(if \<not> passed then throw (FeeSanityError msg) else ret built) s2 = (Inr u, s')"
    by blast
  from r have "passed \<and> built = u \<and> s2 = s'"
    by (cases passed) (simp_all add: throw_def ret_def)
  with a c show ?thesis by auto
qed

lemma guard_rejects:
  assumes "assemble s = (Inr built, s1)" and "checkGooseEgg cls e built 0 s1 = (Inr False, s2)"
  shows "andThen assemble
      (\<lambda>built. andThen (checkGooseEgg cls e built 0)
         (\<lambda>passed. if \<not> passed then throw (FeeSanityError msg) else ret built)) s =
      (Inl (FeeSanityError msg), s2)"
  using assms by (simp add: andThen_def throw_def)

lemma guard_accepts:
  assumes "assemble s = (Inr built, s1)" and "checkGooseEgg cls e built 0 s1 = (Inr True, s2)"
  shows "andThen assemble
      (\<lambda>built. andThen (checkGooseEgg cls e built 0)
         (\<lambda>passed. if \<not> passed then throw (FeeSanityError msg) else ret built)) s =
      (Inr built, s2)"
  using assms by (simp add: andThen_def ret_def)

lemma guard_throws:
  assumes "assemble s = (Inr built, s1)" and "checkGooseEgg cls e built 0 s1 = (Inl err, s2)"
  shows "andThen assemble
      (\<lambda>built. andThen (checkGooseEgg cls e built 0)
         (\<lambda>passed. if \<not> passed then throw (FeeSanityError msg) else ret built)) s =
      (Inl err, s2)"
  using assms by (simp add: andThen_def)

lemma assemble_fails:
  assumes "assemble s = (Inl err, s1)"
  shows "andThen assemble
      (\<lambda>built. andThen (checkGooseEgg cls e built 0)
         (\<lambda>passed. if \<not> passed then throw (FeeSanityError msg) else ret built)) s =
      (Inl err, s1)"
  using assms by (simp add: andThen_def)

text \<open>
  Claim C6. \<^verbatim>\<open>buildImportTx\<close> and \<^verbatim>\<open>buildExportTx\<close> run the fee-sanity guard after
  the unsigned transaction has been assembled and before returning it. Once the assembly
  has produced a transaction, the outcome of the builder is the outcome of the guard on
  that transaction: when the guard accepts, the builder returns the assembled transaction;
  when the guard rejects, the builder raises FeeSanityError and returns no transaction;
  when the guard itself throws, so does the builder. When the assembly fails the builder
  fails with its error. So a transaction that a builder returns is the assembled one and
  has passed the guard.
\<close>

theorem builders_run_fee_sanity_guard:
  "(buildImportTx_assemble cls e utxoset owners sourceChain toA fromA changeA memo asOf
      locktime threshold s = (Inr built, sa) \<longrightarrow>
      (checkGooseEgg cls e built 0 sa = (Inr True, sb) \<longrightarrow>
         buildImportTx cls e utxoset owners sourceChain toA fromA changeA memo asOf locktime
           threshold s = (Inr built, sb)) \<and>
      (checkGooseEgg cls e built 0 sa = (Inr False, sb) \<longrightarrow>
         buildImportTx cls e utxoset owners sourceChain toA fromA changeA memo asOf locktime
           threshold s = (Inl (FeeSanityError ''Failed Goose Egg Check''), sb)) \<and>
      (checkGooseEgg cls e built 0 sa = (Inl err, sb) \<longrightarrow>
         buildImportTx cls e utxoset owners sourceChain toA fromA changeA memo asOf locktime
           threshold s = (Inl err, sb))) \<and>
   (buildImportTx_assemble cls e utxoset owners sourceChain toA fromA changeA memo asOf
      locktime threshold s = (Inl err, sa) \<longrightarrow>
      buildImportTx cls e utxoset owners sourceChain toA fromA changeA memo asOf locktime
        threshold s = (Inl err, sa)) \<and>
   (buildImportTx cls e utxoset owners sourceChain toA fromA changeA memo asOf locktime
      threshold s = (Inr u, s') \<longrightarrow>
      (\<exists>s0. buildImportTx_assemble cls e utxoset owners sourceChain toA fromA changeA memo
               asOf locktime threshold s = (Inr u, s0) \<and>
            checkGooseEgg cls e u 0 s0 = (Inr True, s'))) \<and>
   (buildExportTx_assemble cls e utxoset amount destinationChain toS fromA changeA memo
      asOf locktime threshold s = (Inr built, sa) \<longrightarrow>
      (checkGooseEgg cls e built 0 sa = (Inr True, sb) \<longrightarrow>
         buildExportTx cls e utxoset amount destinationChain toS fromA changeA memo asOf
           locktime threshold s = (Inr built, sb)) \<and>
      (checkGooseEgg cls e built 0 sa = (Inr False, sb) \<longrightarrow>
         buildExportTx cls e utxoset amount destinationChain toS fromA changeA memo asOf
           locktime threshold s = (Inl (FeeSanityError ''Failed Goose Egg Check''), sb)) \<and>
      (checkGooseEgg cls e built 0 sa = (Inl err, sb) \<longrightarrow>
         buildExportTx cls e utxoset amount destinationChain toS fromA changeA memo asOf
           locktime threshold s = (Inl err, sb))) \<and>
   (buildExportTx_assemble cls e utxoset amount destinationChain toS fromA changeA memo
      asOf locktime threshold s = (Inl err, sa) \<longrightarrow>
      buildExportTx cls e utxoset amount destinationChain toS fromA changeA memo asOf
        locktime threshold s = (Inl err, sa)) \<and>
   (buildExportTx cls e utxoset amount destinationChain toS fromA changeA memo asOf
      locktime threshold s = (Inr u, s') \<longrightarrow>
      (\<exists>s0. buildExportTx_assemble cls e utxoset amount destinationChain toS fromA changeA
               memo asOf locktime threshold s = (Inr u, s0) \<and>
            checkGooseEgg cls e u 0 s0 = (Inr True, s')))"
proof (intro conjI impI)
  assume a: "buildImportTx_assemble cls e utxoset owners sourceChain toA fromA changeA memo asOf locktime threshold s =
      (Inr built, sa)"
    and g: "checkGooseEgg cls e built 0 sa = (Inr True, sb)"
  show "buildImportTx cls e utxoset owners sourceChain toA fromA changeA memo asOf locktime threshold s =
      (Inr built, sb)"
    unfolding buildImportTx_def by (rule guard_accepts, rule a, rule g)
next
  assume a: "buildImportTx_assemble cls e utxoset owners sourceChain toA fromA changeA memo asOf locktime threshold s =
      (Inr built, sa)"
    and g: "checkGooseEgg cls e built 0 sa = (Inr False, sb)"
  show "buildImportTx cls e utxoset owners sourceChain toA fromA changeA memo asOf locktime threshold s =
      (Inl (FeeSanityError ''Failed Goose Egg Check''), sb)"
    unfolding buildImportTx_def by (rule guard_rejects, rule a, rule g)
next
  assume a: "buildImportTx_assemble cls e utxoset owners sourceChain toA fromA changeA memo asOf locktime threshold s =
      (Inr built, sa)"
    and g: "checkGooseEgg cls e built 0 sa = (Inl err, sb)"
  show "buildImportTx cls e utxoset owners sourceChain toA fromA changeA memo asOf locktime threshold s =
      (Inl err, sb)"
    unfolding buildImportTx_def by (rule guard_throws, rule a, rule g)
next
  assume a: "buildImportTx_assemble cls e utxoset owners sourceChain toA fromA changeA memo asOf locktime threshold s =
      (Inl err, sa)"
  show "buildImportTx cls e utxoset owners sourceChain toA fromA changeA memo asOf locktime threshold s =
      (Inl err, sa)"
    unfolding buildImportTx_def by (rule assemble_fails, rule a)
next
  assume h: "buildImportTx cls e utxoset owners sourceChain toA fromA changeA memo asOf locktime threshold s =
      (Inr u, s')"
  show "\<exists>s0. buildImportTx_assemble cls e utxoset owners sourceChain toA fromA changeA memo asOf locktime threshold s =
      (Inr u, s0) \<and> checkGooseEgg cls e u 0 s0 = (Inr True, s')"
    by (rule guard_returns, rule h [unfolded buildImportTx_def])
next
  assume a: "buildExportTx_assemble cls e utxoset amount destinationChain toS fromA changeA memo asOf locktime threshold s =
      (Inr built, sa)"
    and g: "checkGooseEgg cls e built 0 sa = (Inr True, sb)"
  show "buildExportTx cls e utxoset amount destinationChain toS fromA changeA memo asOf locktime threshold s =
      (Inr built, sb)"
    unfolding buildExportTx_def by (rule guard_accepts, rule a, rule g)
next
  assume a: "buildExportTx_assemble cls e utxoset amount destinationChain toS fromA changeA memo asOf locktime threshold s =
      (Inr built, sa)"
    and g: "checkGooseEgg cls e built 0 sa = (Inr False, sb)"
  show "buildExportTx cls e utxoset amount destinationChain toS fromA changeA memo asOf locktime threshold s =
      (Inl (FeeSanityError ''Failed Goose Egg Check''), sb)"
    unfolding buildExportTx_def by (rule guard_rejects, rule a, rule g)
next
  assume a: "buildExportTx_assemble cls e utxoset amount destinationChain toS fromA changeA memo asOf locktime threshold s =
      (Inr built, sa)"
    and g: "checkGooseEgg cls e built 0 sa = (Inl err, sb)"
  show "buildExportTx cls e utxoset amount destinationChain toS fromA changeA memo asOf locktime threshold s =
      (Inl err, sb)"
    unfolding buildExportTx_def by (rule guard_throws, rule a, rule g)
next
  assume a: "buildExportTx_assemble cls e utxoset amount destinationChain toS fromA changeA memo asOf locktime threshold s =
      (Inl err, sa)"
  show "buildExportTx cls e utxoset amount destinationChain toS fromA changeA memo asOf locktime threshold s =
      (Inl err, sa)"
    unfolding buildExportTx_def by (rule assemble_fails, rule a)
next
  assume h: "buildExportTx cls e utxoset amount destinationChain toS fromA changeA memo asOf locktime threshold s =
      (Inr u, s')"
  show "\<exists>s0. buildExportTx_assemble cls e utxoset amount destinationChain toS fromA changeA memo asOf locktime threshold s =
      (Inr u, s0) \<and> checkGooseEgg cls e u 0 s0 = (Inr True, s')"
    by (rule guard_returns, rule h [unfolded buildExportTx_def])
qed

lemmas demo_defs = demo_env_def demo_api_def new_api_def demo_network_def demo_chain_C_def
  demo_chain_P_def bytes_of_def split_first_def

lemmas builder_defs = cleanAddresses_def cleanAddressArray_def parseAddress_def
  getBlockchainAlias_def getBlockchainID_def truthy_def importSourceChain_def getUTXOs_def
  callMethod_def getTxFee_def getDefaultTxFee_def normalizeMemo_def getAllUTXOs_def
  UTXOSet_addArray_def UTXOSet_add_def UTXOSet_includes_def ADDRESSLENGTH_def
  andThen_def lift_def ret_def throw_def

lemma demo_import_assemble:
  "buildImportTx_assemble EVMAPI (demo_env [] built) [] [''C-owner''] (JString ''chainX'')
     (Some [AddrStr ''C-to'']) (Some [AddrStr ''C-from'']) None MemoUndefined 0 0 1 demo_api =
   (Inr built,
    demo_api\<lparr>blockchainAlias := Some ''C'',
      rpc_log := [(''avax.getUTXOs'', GetUTXOsParams [''C-owner''] 0 None (Some ''chainX''))],
      txFee := Some 1000000\<rparr>)"
  by (simp add: buildImportTx_assemble_def builder_defs demo_defs)

lemma demo_export_assemble:
  "buildExportTx_assemble EVMAPI (demo_env [] built) [] 5
     (JString ''0123456789abcdef0123456789abcdef'') [''X-to''] (Some [AddrStr ''C-from''])
     None MemoUndefined 0 0 1 demo_api =
   (Inr built, demo_api\<lparr>blockchainAlias := Some ''C'', txFee := Some 1000000\<rparr>)"
  by (simp add: buildExportTx_assemble_def buildExportTx_build_def exportDestinationChain_def
      exportPrefixes_def object_assign_true_def Object_keys_def builder_defs demo_defs)

lemma demo_guard:
  "AVAXAssetID s = Some (bytes_of ''AVAX'') \<Longrightarrow>
   checkGooseEgg EVMAPI e (demo_tx i out) 0 s = (Inr (i - out \<le> 10000000000 \<or> i - out \<le> out), s)"
  by (simp add: checkGooseEgg_def andThen_def ret_def lift_def demo_tx_burn demo_tx_output
      ONEAVAX_def)

theorem builders_run_fee_sanity_guard_witness:
  "buildImportTx EVMAPI (demo_env [] (demo_tx 21000000000 1000000000)) [] [''C-owner'']
     (JString ''chainX'') (Some [AddrStr ''C-to'']) (Some [AddrStr ''C-from'']) None
     MemoUndefined 0 0 1 demo_api =
     (Inl (FeeSanityError ''Failed Goose Egg Check''),
      demo_api\<lparr>blockchainAlias := Some ''C'',
        rpc_log := [(''avax.getUTXOs'', GetUTXOsParams [''C-owner''] 0 None (Some ''chainX''))],
        txFee := Some 1000000\<rparr>) \<and>
   buildExportTx EVMAPI (demo_env [] (demo_tx 21000000000 1000000000)) [] 5
     (JString ''0123456789abcdef0123456789abcdef'') [''X-to''] (Some [AddrStr ''C-from''])
     None MemoUndefined 0 0 1 demo_api =
     (Inl (FeeSanityError ''Failed Goose Egg Check''),
      demo_api\<lparr>blockchainAlias := Some ''C'', txFee := Some 1000000\<rparr>) \<and>
   buildImportTx EVMAPI (demo_env [] (demo_tx 7 7)) [] [''C-owner'']
     (JString ''chainX'') (Some [AddrStr ''C-to'']) (Some [AddrStr ''C-from'']) None
     MemoUndefined 0 0 1 demo_api =
     (Inr (demo_tx 7 7),
      demo_api\<lparr>blockchainAlias := Some ''C'',
        rpc_log := [(''avax.getUTXOs'', GetUTXOsParams [''C-owner''] 0 None (Some ''chainX''))],
        txFee := Some 1000000\<rparr>) \<and>
   buildExportTx EVMAPI (demo_env [] (demo_tx 7 7)) [] 5
     (JString ''0123456789abcdef0123456789abcdef'') [''X-to''] (Some [AddrStr ''C-from''])
     None MemoUndefined 0 0 1 demo_api =
     (Inr (demo_tx 7 7), demo_api\<lparr>blockchainAlias := Some ''C'', txFee := Some 1000000\<rparr>) \<and>
   buildExportTx EVMAPI (demo_env [] (demo_tx 7 7)) [] 5
     (JString ''0123456789abcdef0123456789abcdef'') [''X-to''] (Some [AddrStr ''C-from''])
     None MemoUndefined 0 0 1 (new_api ''chainC'') =
     (Inl (TypeError ''Cannot read properties of undefined (reading toString)''),
      (new_api ''chainC'')\<lparr>blockchainAlias := Some ''C'', txFee := Some 1000000\<rparr>) \<and>
   buildExportTx EVMAPI (demo_env [] (demo_tx 7 7)) [] 5 (JString ''chainX'') [''X-to'']
     (Some [AddrStr ''C-from'']) None MemoUndefined 0 0 1 demo_api =
     (Inl (InvalidChainIDLength
        ''Error - EVMAPI.buildExportTx: Destination ChainID must be 32 bytes in length.''),
      demo_api) \<and>
   (\<exists>s0. buildImportTx_assemble EVMAPI (demo_env [] (demo_tx 7 7)) [] [''C-owner'']
            (JString ''chainX'') (Some [AddrStr ''C-to'']) (Some [AddrStr ''C-from'']) None
            MemoUndefined 0 0 1 demo_api = (Inr (demo_tx 7 7), s0) \<and>
          checkGooseEgg EVMAPI (demo_env [] (demo_tx 7 7)) (demo_tx 7 7) 0 s0 =
            (Inr True,
             demo_api\<lparr>blockchainAlias := Some ''C'',
               rpc_log := [(''avax.getUTXOs'',
                 GetUTXOsParams [''C-owner''] 0 None (Some ''chainX''))],
               txFee := Some 1000000\<rparr>)) \<and>
   (\<exists>s0. buildExportTx_assemble EVMAPI (demo_env [] (demo_tx 7 7)) [] 5
            (JString ''0123456789abcdef0123456789abcdef'') [''X-to'']
            (Some [AddrStr ''C-from'']) None MemoUndefined 0 0 1 demo_api =
            (Inr (demo_tx 7 7), s0) \<and>
          checkGooseEgg EVMAPI (demo_env [] (demo_tx 7 7)) (demo_tx 7 7) 0 s0 =
            (Inr True, demo_api\<lparr>blockchainAlias := Some ''C'', txFee := Some 1000000\<rparr>))"
proof -
  let ?bad = "demo_tx 21000000000 1000000000"
  let ?good = "demo_tx 7 7"
  let ?long = "JString ''0123456789abcdef0123456789abcdef''"
  let ?si = "demo_api\<lparr>blockchainAlias := Some ''C'',
      rpc_log := [(''avax.getUTXOs'', GetUTXOsParams [''C-owner''] 0 None (Some ''chainX''))],
      txFee := Some 1000000\<rparr>"
  let ?se = "demo_api\<lparr>blockchainAlias := Some ''C'', txFee := Some 1000000\<rparr>"
  let ?sn = "(new_api ''chainC'')\<lparr>blockchainAlias := Some ''C'', txFee := Some 1000000\<rparr>"
  have ai: "AVAXAssetID ?si = Some (bytes_of ''AVAX'')"
    and ae: "AVAXAssetID ?se = Some (bytes_of ''AVAX'')"
    by (simp_all add: demo_api_def)
  have ri: "checkGooseEgg EVMAPI (demo_env [] ?bad) ?bad 0 ?si = (Inr False, ?si)"
    and re: "checkGooseEgg EVMAPI (demo_env [] ?bad) ?bad 0 ?se = (Inr False, ?se)"
    by (simp_all add: demo_guard [OF ai] demo_guard [OF ae])
  have gi: "checkGooseEgg EVMAPI (demo_env [] ?good) ?good 0 ?si = (Inr True, ?si)"
    and ge: "checkGooseEgg EVMAPI (demo_env [] ?good) ?good 0 ?se = (Inr True, ?se)"
    by (simp_all add: demo_guard [OF ai] demo_guard [OF ae])
  have gn: "checkGooseEgg EVMAPI (demo_env [] ?good) ?good 0 ?sn =
      (Inl (TypeError ''Cannot read properties of undefined (reading toString)''), ?sn)"
    by (rule checkGooseEgg_without_asset) (simp add: new_api_def)
  have an: "buildExportTx_assemble EVMAPI (demo_env [] ?good) [] 5 ?long [''X-to'']
      (Some [AddrStr ''C-from'']) None MemoUndefined 0 0 1 (new_api ''chainC'') =
      (Inr ?good, ?sn)"
    by (simp add: buildExportTx_assemble_def buildExportTx_build_def exportDestinationChain_def
        exportPrefixes_def object_assign_true_def Object_keys_def builder_defs demo_defs)
  have af: "buildExportTx_assemble EVMAPI (demo_env [] ?good) [] 5 (JString ''chainX'')
      [''X-to''] (Some [AddrStr ''C-from'']) None MemoUndefined 0 0 1 demo_api =
      (Inl (InvalidChainIDLength
         ''Error - EVMAPI.buildExportTx: Destination ChainID must be 32 bytes in length.''),
       demo_api)"
    by (simp add: buildExportTx_assemble_def exportDestinationChain_def
        exportPrefixes_def object_assign_true_def Object_keys_def builder_defs demo_defs)
  note ti = builders_run_fee_sanity_guard
    [where cls = EVMAPI and utxoset = "[]" and owners = "[''C-owner'']"
      and sourceChain = "JString ''chainX''" and toA = "Some [AddrStr ''C-to'']"
      and fromA = "Some [AddrStr ''C-from'']" and changeA = None and memo = MemoUndefined
      and asOf = 0 and locktime = 0 and threshold = 1 and s = demo_api and sa = ?si
      and sb = ?si, THEN conjunct1, rule_format]
  note te = builders_run_fee_sanity_guard
    [where cls = EVMAPI and utxoset = "[]" and amount = 5 and destinationChain = ?long
      and toS = "[''X-to'']" and fromA = "Some [AddrStr ''C-from'']" and changeA = None
      and memo = MemoUndefined and asOf = 0 and locktime = 0 and threshold = 1
      and s = demo_api and sa = ?se and sb = ?se,
      THEN conjunct2, THEN conjunct2, THEN conjunct2, THEN conjunct1, rule_format]
  note tn = builders_run_fee_sanity_guard
    [where cls = EVMAPI and utxoset = "[]" and amount = 5 and destinationChain = ?long
      and toS = "[''X-to'']" and fromA = "Some [AddrStr ''C-from'']" and changeA = None
      and memo = MemoUndefined and asOf = 0 and locktime = 0 and threshold = 1
      and s = "new_api ''chainC''" and sa = ?sn and sb = ?sn,
      THEN conjunct2, THEN conjunct2, THEN conjunct2, THEN conjunct1, rule_format]
  note tf = builders_run_fee_sanity_guard
    [where cls = EVMAPI and utxoset = "[]" and amount = 5
      and destinationChain = "JString ''chainX''"
      and toS = "[''X-to'']" and fromA = "Some [AddrStr ''C-from'']" and changeA = None
      and memo = MemoUndefined and asOf = 0 and locktime = 0 and threshold = 1
      and s = demo_api and sa = demo_api,
      THEN conjunct2, THEN conjunct2, THEN conjunct2, THEN conjunct2, THEN conjunct1,
      rule_format]
  have a: "buildImportTx EVMAPI (demo_env [] ?bad) [] [''C-owner''] (JString ''chainX'')
      (Some [AddrStr ''C-to'']) (Some [AddrStr ''C-from'']) None MemoUndefined 0 0 1 demo_api =
      (Inl (FeeSanityError ''Failed Goose Egg Check''), ?si)"
    by (rule ti [THEN conjunct2, THEN conjunct1, rule_format, OF demo_import_assemble ri])
  have b: "buildExportTx EVMAPI (demo_env [] ?bad) [] 5 ?long [''X-to'']
      (Some [AddrStr ''C-from'']) None MemoUndefined 0 0 1 demo_api =
      (Inl (FeeSanityError ''Failed Goose Egg Check''), ?se)"
    by (rule te [THEN conjunct2, THEN conjunct1, rule_format, OF demo_export_assemble re])
  have c: "buildImportTx EVMAPI (demo_env [] ?good) [] [''C-owner''] (JString ''chainX'')
      (Some [AddrStr ''C-to'']) (Some [AddrStr ''C-from'']) None MemoUndefined 0 0 1 demo_api =
      (Inr ?good, ?si)"
    by (rule ti [THEN conjunct1, rule_format, OF demo_import_assemble gi])
  have d: "buildExportTx EVMAPI (demo_env [] ?good) [] 5 ?long [''X-to'']
      (Some [AddrStr ''C-from'']) None MemoUndefined 0 0 1 demo_api = (Inr ?good, ?se)"
    by (rule te [THEN conjunct1, rule_format, OF demo_export_assemble ge])
  have f: "buildExportTx EVMAPI (demo_env [] ?good) [] 5 ?long [''X-to'']
      (Some [AddrStr ''C-from'']) None MemoUndefined 0 0 1 (new_api ''chainC'') =
      (Inl (TypeError ''Cannot read properties of undefined (reading toString)''), ?sn)"
    by (rule tn [THEN conjunct2, THEN conjunct2, rule_format, OF an gn])
  have g: "buildExportTx EVMAPI (demo_env [] ?good) [] 5 (JString ''chainX'') [''X-to'']
      (Some [AddrStr ''C-from'']) None MemoUndefined 0 0 1 demo_api =
      (Inl (InvalidChainIDLength
         ''Error - EVMAPI.buildExportTx: Destination ChainID must be 32 bytes in length.''),
       demo_api)"
    by (rule tf [OF af])
  have h: "\<exists>s0. buildImportTx_assemble EVMAPI (demo_env [] ?good) [] [''C-owner'']
      (JString ''chainX'') (Some [AddrStr ''C-to'']) (Some [AddrStr ''C-from'']) None
      MemoUndefined 0 0 1 demo_api = (Inr ?good, s0) \<and>
      checkGooseEgg EVMAPI (demo_env [] ?good) ?good 0 s0 = (Inr True, ?si)"
    by (rule builders_run_fee_sanity_guard
        [THEN conjunct2, THEN conjunct2, THEN conjunct1, rule_format, OF c])
  have i: "\<exists>s0. buildExportTx_assemble EVMAPI (demo_env [] ?good) [] 5 ?long [''X-to'']
      (Some [AddrStr ''C-from'']) None MemoUndefined 0 0 1 demo_api = (Inr ?good, s0) \<and>
      checkGooseEgg EVMAPI (demo_env [] ?good) ?good 0 s0 = (Inr True, ?se)"
    by (rule builders_run_fee_sanity_guard
        [THEN conjunct2, THEN conjunct2, THEN conjunct2, THEN conjunct2, THEN conjunct2,
          rule_format, OF d])
  show ?thesis
    by (intro conjI) (rule a, rule b, rule c, rule d, rule f, rule g, rule h, rule i)
qed

section \<open>Import: address validation\<close>

lemma getBlockchainAlias_rpc_log: "rpc_log (snd (getBlockchainAlias e s)) = rpc_log s"
  by (simp add: getBlockchainAlias_def split: option.splits)

lemma parseAddress_rpc_log: "rpc_log (snd (parseAddress e a s)) = rpc_log s"
proof (cases "getBlockchainAlias e s")
  case (Pair al s1)
  with getBlockchainAlias_rpc_log [of e s] show ?thesis
    by (simp add: parseAddress_def)
qed

lemma cleanAddressLoop_rpc_log:
  "rpc_log (snd (cleanAddressLoop cls e caller chainid entries addrs s)) = rpc_log s"
proof (induction entries arbitrary: addrs s)
  case Nil
  show ?case by simp
next
  case (Cons x entries)
  show ?case
  proof (cases x)
    case (AddrStr a)
    obtain r s1 where p: "parseAddress e a s = (r, s1)"
      by (cases "parseAddress e a s")
    with parseAddress_rpc_log [of e a s] have l: "rpc_log s1 = rpc_log s"
      by simp
    show ?thesis
    proof (cases r)
      case None
      with AddrStr p l show ?thesis by simp
    next
      case (Some parsed)
      with AddrStr p l Cons.IH [of "addrs @ [a]" s1] show ?thesis by simp
    qed
  next
    case (AddrBuf b)
    with Cons.IH show ?thesis by simp
  qed
qed

lemma cleanAddressLoop_error:
  "cleanAddressLoop cls e caller chainid entries addrs s = (Inl err, s') \<Longrightarrow>
   \<exists>a. AddrStr a \<in> set entries \<and> fst (parseAddress e a s') = None \<and>
       err = AddressFormatError
         (''Error - '' @ class_name cls @ ''.'' @ caller @ '': Invalid address format '' @ a)"
proof (induction entries arbitrary: addrs s)
  case Nil
  then show ?case by simp
next
  case (Cons x entries)
  show ?case
  proof (cases x)
    case (AddrStr a)
    obtain r s1 where p: "parseAddress e a s = (r, s1)"
      by (cases "parseAddress e a s")
    show ?thesis
    proof (cases r)
      case None
      with AddrStr p Cons.prems have e: "err = AddressFormatError
          (''Error - '' @ class_name cls @ ''.'' @ caller @ '': Invalid address format '' @ a)"
        and s: "s' = s1"
        by simp_all
      from p None have "fst (parseAddress e a s1) = None"
        by (auto simp: parseAddress_def getBlockchainAlias_def split: option.splits prod.splits)
      with e s AddrStr show ?thesis by auto
    next
      case (Some parsed)
      with AddrStr p Cons.prems
      have "cleanAddressLoop cls e caller chainid entries (addrs @ [a]) s1 = (Inl err, s')"
        by simp
      from Cons.IH [OF this] show ?thesis by auto
    qed
  next
    case (AddrBuf b)
    with Cons.prems
    have "cleanAddressLoop cls e caller chainid entries
        (addrs @ [bintools_addressToString e (hrp e) chainid b]) s = (Inl err, s')"
      by simp
    from Cons.IH [OF this] show ?thesis by auto
  qed
qed

text \<open>
  Claim C8. In \<^verbatim>\<open>buildImportTx\<close> every string entry of the three address lists is
  validated by the chain's address parsing, an entry that fails to parse raises
  AddressFormatError whose message names the offending string and the calling operation,
  and this happens before any remote call. The validation, the offending string and the
  order hold (lemmas \<open>cleanAddressLoop_error\<close> and \<open>cleanAddressLoop_rpc_log\<close>), but
  \<^verbatim>\<open>buildImportTx\<close> hands \<^verbatim>\<open>_cleanAddressArray\<close> the caller name
  \<^verbatim>\<open>'buildBaseTx'\<close>, so the message names an operation that is not the calling one.
\<close>

theorem buildImportTx_address_error_names_buildBaseTx:
  "buildImportTx EVMAPI (demo_env [] (demo_tx 7 7)) [] [''C-owner''] (JString ''chainX'')
     (Some [AddrStr ''X-bad'']) None None MemoUndefined 0 0 1 demo_api =
     (Inl (AddressFormatError ''Error - EVMAPI.buildBaseTx: Invalid address format X-bad''),
      demo_api\<lparr>blockchainAlias := Some ''C''\<rparr>) \<and>
   rpc_log (demo_api\<lparr>blockchainAlias := Some ''C''\<rparr>) = [] \<and>
   buildImportTx ContractVMAPI (demo_env [] (demo_tx 7 7)) [] [''C-owner''] (JString ''chainX'')
     (Some [AddrStr ''X-bad'']) None None MemoUndefined 0 0 1 demo_api =
     (Inl (AddressFormatError ''Error - ContractVMAPI.buildBaseTx: Invalid address format X-bad''),
      demo_api\<lparr>blockchainAlias := Some ''C''\<rparr>)"
  by (simp add: buildImportTx_def buildImportTx_assemble_def cleanAddresses_def
      cleanAddressArray_def parseAddress_def getBlockchainAlias_def getBlockchainID_def
      truthy_def ADDRESSLENGTH_def andThen_def demo_defs)

section \<open>Fetching spendable outputs with a persisted snapshot\<close>

lemma getUTXOs_snapshot:
  assumes "respond e (rpc_log s)
      (rpc_prefix cls @ ''.getUTXOs'',
       GetUTXOsParams (case addresses of One a \<Rightarrow> [a] | Many as \<Rightarrow> as) limit startIndex
         sourceChain) = Inr (UTXOsResult n fetched endIdx)"
    and "db s (po_name po) = Some (DBArray selfArray)"
  shows "getUTXOs cls e addresses sourceChain limit startIndex (Some po) s =
    (Inr \<lparr>numFetched = n,
          utxos = UTXOSet_addArray
            (mergeByRule (UTXOSet_addArray selfArray False []) (UTXOSet_addArray fetched False [])
               (po_mergeRule po))
            False (UTXOSet_addArray fetched False []),
          endIndex = endIdx\<rparr>,
     s\<lparr>rpc_log := rpc_log s @
          [(rpc_prefix cls @ ''.getUTXOs'',
            GetUTXOsParams (case addresses of One a \<Rightarrow> [a] | Many as \<Rightarrow> as) limit startIndex
              sourceChain)],
        db := db_set (db s) (po_name po)
          (DBArray (mergeByRule (UTXOSet_addArray selfArray False [])
             (UTXOSet_addArray fetched False []) (po_mergeRule po)))
          (po_overwrite po)\<rparr>)"
  using assms by (simp add: getUTXOs_def callMethod_def andThen_def getAllUTXOStrings_def)

lemma getUTXOs_no_snapshot:
  assumes "respond e (rpc_log s)
      (rpc_prefix cls @ ''.getUTXOs'',
       GetUTXOsParams (case addresses of One a \<Rightarrow> [a] | Many as \<Rightarrow> as) limit startIndex
         sourceChain) = Inr (UTXOsResult n fetched endIdx)"
    and "db s (po_name po) = None"
  shows "getUTXOs cls e addresses sourceChain limit startIndex (Some po) s =
    (Inr \<lparr>numFetched = n, utxos = UTXOSet_addArray fetched False [], endIndex = endIdx\<rparr>,
     s\<lparr>rpc_log := rpc_log s @
          [(rpc_prefix cls @ ''.getUTXOs'',
            GetUTXOsParams (case addresses of One a \<Rightarrow> [a] | Many as \<Rightarrow> as) limit startIndex
              sourceChain)],
        db := db_set (db s) (po_name po) (DBArray fetched) (po_overwrite po)\<rparr>)"
  using assms by (simp add: getUTXOs_def callMethod_def andThen_def)

text \<open>
  Claim C3. When \<^verbatim>\<open>getUTXOs\<close> is called with a persistence descriptor and a snapshot
  exists under its name, the fetched outputs are merged into the snapshot by the caller's
  merge rule, and the merged result is both the collection returned and the value written
  back; without a snapshot the fetch is written as it is; the write passes the caller's
  overwrite flag. With the merge modelled as updating \<^verbatim>\<open>self\<close>, the written value
  and the write are as claimed (lemmas \<open>getUTXOs_snapshot\<close> and
  \<open>getUTXOs_no_snapshot\<close>). The returned collection is not
  the merged result: \<^verbatim>\<open>utxos\<close> already holds the fetched outputs when the merged
  array is added to it without overwrite. With a snapshot holding an output under a key,
  a fetch returning another output under the same key and the rule that keeps the
  existing one, the store gets the existing output and the caller the fetched one.
\<close>

theorem getUTXOs_returned_differs_from_written:
  "getUTXOs EVMAPI (demo_env [demo_utxo 7] (demo_tx 0 0)) (One ''C-owner'') None 0 None
     (Some \<lparr>po_name = ''cache'', po_overwrite = True, po_mergeRule = KeepExistingOnConflict\<rparr>)
     (demo_api\<lparr>db := [''cache'' \<mapsto> DBArray [demo_utxo 5]]\<rparr>) =
     (Inr \<lparr>numFetched = 1, utxos = [demo_utxo 7], endIndex = ('''', '''')\<rparr>,
      demo_api\<lparr>db := [''cache'' \<mapsto> DBArray [demo_utxo 5]],
        rpc_log := [(''avax.getUTXOs'', GetUTXOsParams [''C-owner''] 0 None None)]\<rparr>) \<and>
   mergeByRule (UTXOSet_addArray [demo_utxo 5] False []) (UTXOSet_addArray [demo_utxo 7] False [])
     KeepExistingOnConflict = [demo_utxo 5] \<and>
   demo_utxo 7 \<noteq> demo_utxo 5 \<and>
   getUTXOID (demo_utxo 7) = getUTXOID (demo_utxo 5)"
  by (simp add: getUTXOs_def callMethod_def andThen_def getAllUTXOStrings_def
      UTXOSet_addArray_def UTXOSet_add_def UTXOSet_includes_def getUTXOID_def db_set_def
      db_has_def demo_utxo_def demo_env_def demo_api_def new_api_def)

section \<open>Credential dispatch\<close>

text \<open>
  Claim C9. For every tag registered in the credential dispatch registry, the variant
  returned by \<^verbatim>\<open>SelectCredentialClass(tag)\<close> reports \<^verbatim>\<open>getCredentialID()\<close> equal
  to that tag; for every unregistered tag, \<^verbatim>\<open>SelectCredentialClass\<close> raises
  UnknownCredentialType.
\<close>

theorem select_credential_class_dispatch:
  "(tag \<in> set registered_credential_tags \<longrightarrow>
      (\<exists>c. SelectCredentialClass tag args = Inr c \<and> getCredentialID c = tag)) \<and>
   (tag \<notin> set registered_credential_tags \<longrightarrow>
      SelectCredentialClass tag args = Inl (UnknownCredentialType tag))"
  by (simp add: SelectCredentialClass_def registered_credential_tags_def
      new_SECPCredential_def getCredentialID_def)

theorem select_credential_class_dispatch_witness:
  "(9::int) \<in> set registered_credential_tags \<and>
   (\<exists>c. SelectCredentialClass 9 () = Inr c \<and> getCredentialID c = 9) \<and>
   (10::int) \<notin> set registered_credential_tags \<and>
   SelectCredentialClass 10 () = Inl (UnknownCredentialType 10)"
proof -
  have r: "(9::int) \<in> set registered_credential_tags"
    by (simp add: registered_credential_tags_def SECPCREDENTIAL_def)
  have u: "(10::int) \<notin> set registered_credential_tags"
    by (simp add: registered_credential_tags_def SECPCREDENTIAL_def)
  from select_credential_class_dispatch [of 9 "()"] r
  have a: "\<exists>c. SelectCredentialClass 9 () = Inr c \<and> getCredentialID c = 9"
    by blast
  from select_credential_class_dispatch [of 10 "()"] u
  have b: "SelectCredentialClass 10 () = Inl (UnknownCredentialType 10)"
    by blast
  from r u a b show ?thesis by blast
qed

end
